theory Spec2Isabelle
  imports Complex_Main
begin

section \<open>Data model\<close>

text \<open>
  The checkout form of \<^verbatim>\<open>src/src/App.tsx\<close> keeps a list of services, the contact
  form and a three-step flow in the state of one React component. The embedding below
  follows the file top to bottom: the interfaces (lines 6-27), the initial values of the
  state hooks (lines 33-79), the discount rules (lines 82-101) and the handlers
  (lines 103-202), followed by the back button of the view (lines 340-350).

  A JavaScript \<^verbatim>\<open>number\<close> is modelled as an exact rational: prices are whole
  amounts and discounts are decimal fractions, and the rounding of IEEE doubles is not
  part of the model. A string is a list of 8-bit characters; the Russian display texts
  of the source are written as the bytes of their UTF-8 encoding, since the code never
  looks inside them. Two interfaces both have a field \<^verbatim>\<open>name\<close> and one has
  \<^verbatim>\<open>id\<close>, \<^verbatim>\<open>type\<close> and \<^verbatim>\<open>value\<close>; the fields of \<^verbatim>\<open>Service\<close> and
  \<^verbatim>\<open>DiscountRule\<close> that would clash carry the prefixes \<open>svc_\<close> and \<open>rule_\<close>.
\<close>

type_synonym number = rat

datatype category = essential | additional | premium

record Service =
  svc_id :: string
  svc_name :: string
  description :: string
  price :: number
  selected :: bool
  category :: category

record FormData =
  name :: string
  email :: string
  phone :: string
  promoCode :: string

datatype rule_type = bulk | promo | first_time | seasonal

text \<open>
  The condition of a rule is optional, and so is its second argument:
  \<^verbatim>\<open>condition?: (services: Service[], formData?: FormData) => boolean\<close>.
\<close>

record DiscountRule =
  rule_type :: rule_type
  rule_value :: number
  rule_description :: string
  condition :: "(Service list \<Rightarrow> FormData option \<Rightarrow> bool) option"

text \<open>The object returned by \<^verbatim>\<open>calculateTotal\<close> (lines 132-139).\<close>

record Calculation =
  subtotal :: number
  discount :: number
  discountAmount :: number
  total :: number
  appliedDiscounts :: "string list"
  selectedServices :: "Service list"

datatype step = selection | contact | payment

text \<open>
  A toast is what \<^verbatim>\<open>addToast(message, type)\<close> hands to the toast collaborator; the
  handlers below return the toasts they raise next to the new state.
\<close>

datatype severity = success | warning | error

type_synonym toast = "string \<times> severity"

text \<open>
  \<^verbatim>\<open>validateForm(formData, validationRules)\<close> comes from
  \<^verbatim>\<open>./components/FormValidation\<close>; it is a parameter of every definition that
  calls it. A rule set gives each field its constraints, an error names a field and
  carries a message (\<^verbatim>\<open>error.field\<close>, \<^verbatim>\<open>error.message\<close>).
\<close>

datatype constraint = required | minLength nat | email_format | phone_format

type_synonym validation_rules = "(string \<times> constraint list) list"

type_synonym validation_error = "string \<times> string"

type_synonym validator = "FormData \<Rightarrow> validation_rules \<Rightarrow> validation_error list"

text \<open>The seven state hooks of the component (lines 33-79).\<close>

record app_state =
  services :: "Service list"
  formData :: FormData
  formErrors :: "string \<rightharpoonup> string"
  termsAccepted :: bool
  showContactForm :: bool
  isProcessing :: bool
  currentStep :: step

subsection \<open>Display texts\<close>

text \<open>Names and descriptions of the four services (lines 36-37, 44-45, 52-53, 60-61).\<close>

definition nif_name :: string where
  "nif_name =
     ''NIF ('' @ [CHR 0xD0, CHR 0x9D, CHR 0xD0, CHR 0xB0, CHR 0xD0, CHR 0xBB, CHR 0xD0,
     CHR 0xBE, CHR 0xD0, CHR 0xB3, CHR 0xD0, CHR 0xBE, CHR 0xD0, CHR 0xB2, CHR 0xD1,
     CHR 0x8B, CHR 0xD0, CHR 0xB9] @ '' '' @ [CHR 0xD0, CHR 0xBD, CHR 0xD0, CHR 0xBE,
     CHR 0xD0, CHR 0xBC, CHR 0xD0, CHR 0xB5, CHR 0xD1, CHR 0x80] @ '')''"

definition nif_description :: string where
  "nif_description =
     [CHR 0xD0, CHR 0x9F, CHR 0xD0, CHR 0xBE, CHR 0xD0, CHR 0xBB, CHR 0xD1, CHR 0x83,
     CHR 0xD1, CHR 0x87, CHR 0xD0, CHR 0xB5, CHR 0xD0, CHR 0xBD, CHR 0xD0, CHR 0xB8,
     CHR 0xD0, CHR 0xB5] @ '' '' @ [CHR 0xD0, CHR 0xBF, CHR 0xD0, CHR 0xBE, CHR 0xD1,
     CHR 0x80, CHR 0xD1, CHR 0x82, CHR 0xD1, CHR 0x83, CHR 0xD0, CHR 0xB3, CHR 0xD0,
     CHR 0xB0, CHR 0xD0, CHR 0xBB, CHR 0xD1, CHR 0x8C, CHR 0xD1, CHR 0x81, CHR 0xD0,
     CHR 0xBA, CHR 0xD0, CHR 0xBE, CHR 0xD0, CHR 0xB3, CHR 0xD0, CHR 0xBE] @ '' ''
     @ [CHR 0xD0, CHR 0xBD, CHR 0xD0, CHR 0xB0, CHR 0xD0, CHR 0xBB, CHR 0xD0, CHR 0xBE,
     CHR 0xD0, CHR 0xB3, CHR 0xD0, CHR 0xBE, CHR 0xD0, CHR 0xB2, CHR 0xD0, CHR 0xBE,
     CHR 0xD0, CHR 0xB3, CHR 0xD0, CHR 0xBE] @ '' '' @ [CHR 0xD0, CHR 0xBD, CHR 0xD0,
     CHR 0xBE, CHR 0xD0, CHR 0xBC, CHR 0xD0, CHR 0xB5, CHR 0xD1, CHR 0x80, CHR 0xD0,
     CHR 0xB0] @ '' (NIF) - '' @ [CHR 0xD0, CHR 0xBE, CHR 0xD0, CHR 0xB1, CHR 0xD1,
     CHR 0x8F, CHR 0xD0, CHR 0xB7, CHR 0xD0, CHR 0xB0, CHR 0xD1, CHR 0x82, CHR 0xD0,
     CHR 0xB5, CHR 0xD0, CHR 0xBB, CHR 0xD1, CHR 0x8C, CHR 0xD0, CHR 0xBD, CHR 0xD1,
     CHR 0x8B, CHR 0xD0, CHR 0xB9] @ '' '' @ [CHR 0xD0, CHR 0xB4, CHR 0xD0, CHR 0xBE,
     CHR 0xD0, CHR 0xBA, CHR 0xD1, CHR 0x83, CHR 0xD0, CHR 0xBC, CHR 0xD0, CHR 0xB5,
     CHR 0xD0, CHR 0xBD, CHR 0xD1, CHR 0x82] @ '' '' @ [CHR 0xD0, CHR 0xB4, CHR 0xD0,
     CHR 0xBB, CHR 0xD1, CHR 0x8F] @ '' '' @ [CHR 0xD0, CHR 0xB2, CHR 0xD1, CHR 0x81,
     CHR 0xD0, CHR 0xB5, CHR 0xD1, CHR 0x85] @ '' '' @ [CHR 0xD1, CHR 0x80, CHR 0xD0,
     CHR 0xB5, CHR 0xD0, CHR 0xB7, CHR 0xD0, CHR 0xB8, CHR 0xD0, CHR 0xB4, CHR 0xD0,
     CHR 0xB5, CHR 0xD0, CHR 0xBD, CHR 0xD1, CHR 0x82, CHR 0xD0, CHR 0xBE, CHR 0xD0,
     CHR 0xB2] @ '' '' @ [CHR 0xD0, CHR 0xB8] @ '' '' @ [CHR 0xD0, CHR 0xBD, CHR 0xD0,
     CHR 0xB5, CHR 0xD1, CHR 0x80, CHR 0xD0, CHR 0xB5, CHR 0xD0, CHR 0xB7, CHR 0xD0,
     CHR 0xB8, CHR 0xD0, CHR 0xB4, CHR 0xD0, CHR 0xB5, CHR 0xD0, CHR 0xBD, CHR 0xD1,
     CHR 0x82, CHR 0xD0, CHR 0xBE, CHR 0xD0, CHR 0xB2] @ '', '' @ [CHR 0xD0, CHR 0xB2,
     CHR 0xD0, CHR 0xB5, CHR 0xD0, CHR 0xB4, CHR 0xD1, CHR 0x83, CHR 0xD1, CHR 0x89,
     CHR 0xD0, CHR 0xB8, CHR 0xD1, CHR 0x85] @ '' '' @ [CHR 0xD0, CHR 0xB4, CHR 0xD0,
     CHR 0xB5, CHR 0xD1, CHR 0x8F, CHR 0xD1, CHR 0x82, CHR 0xD0, CHR 0xB5, CHR 0xD0,
     CHR 0xBB, CHR 0xD1, CHR 0x8C, CHR 0xD0, CHR 0xBD, CHR 0xD0, CHR 0xBE, CHR 0xD1,
     CHR 0x81, CHR 0xD1, CHR 0x82, CHR 0xD1, CHR 0x8C] @ '' '' @ [CHR 0xD0, CHR 0xB2]
     @ '' '' @ [CHR 0xD0, CHR 0x9F, CHR 0xD0, CHR 0xBE, CHR 0xD1, CHR 0x80, CHR 0xD1,
     CHR 0x82, CHR 0xD1, CHR 0x83, CHR 0xD0, CHR 0xB3, CHR 0xD0, CHR 0xB0, CHR 0xD0,
     CHR 0xBB, CHR 0xD0, CHR 0xB8, CHR 0xD0, CHR 0xB8] @ ''. '' @ [CHR 0xD0, CHR 0x92,
     CHR 0xD0, CHR 0xBA, CHR 0xD0, CHR 0xBB, CHR 0xD1, CHR 0x8E, CHR 0xD1, CHR 0x87,
     CHR 0xD0, CHR 0xB0, CHR 0xD0, CHR 0xB5, CHR 0xD1, CHR 0x82] @ '' '' @ [CHR 0xD0,
     CHR 0xBF, CHR 0xD0, CHR 0xBE, CHR 0xD0, CHR 0xB4, CHR 0xD0, CHR 0xB0, CHR 0xD1,
     CHR 0x87, CHR 0xD1, CHR 0x83] @ '' '' @ [CHR 0xD0, CHR 0xB4, CHR 0xD0, CHR 0xBE,
     CHR 0xD0, CHR 0xBA, CHR 0xD1, CHR 0x83, CHR 0xD0, CHR 0xBC, CHR 0xD0, CHR 0xB5,
     CHR 0xD0, CHR 0xBD, CHR 0xD1, CHR 0x82, CHR 0xD0, CHR 0xBE, CHR 0xD0, CHR 0xB2]
     @ '', '' @ [CHR 0xD1, CHR 0x81, CHR 0xD0, CHR 0xBE, CHR 0xD0, CHR 0xBF, CHR 0xD1,
     CHR 0x80, CHR 0xD0, CHR 0xBE, CHR 0xD0, CHR 0xB2, CHR 0xD0, CHR 0xBE, CHR 0xD0,
     CHR 0xB6, CHR 0xD0, CHR 0xB4, CHR 0xD0, CHR 0xB5, CHR 0xD0, CHR 0xBD, CHR 0xD0,
     CHR 0xB8, CHR 0xD0, CHR 0xB5] @ '' '' @ [CHR 0xD0, CHR 0xBF, CHR 0xD1, CHR 0x80,
     CHR 0xD0, CHR 0xBE, CHR 0xD1, CHR 0x86, CHR 0xD0, CHR 0xB5, CHR 0xD1, CHR 0x81,
     CHR 0xD1, CHR 0x81, CHR 0xD0, CHR 0xB0] @ '' '' @ [CHR 0xD0, CHR 0xB8] @ '' ''
     @ [CHR 0xD0, CHR 0xBF, CHR 0xD0, CHR 0xBE, CHR 0xD0, CHR 0xBB, CHR 0xD1, CHR 0x83,
     CHR 0xD1, CHR 0x87, CHR 0xD0, CHR 0xB5, CHR 0xD0, CHR 0xBD, CHR 0xD0, CHR 0xB8,
     CHR 0xD0, CHR 0xB5] @ '' '' @ [CHR 0xD0, CHR 0xB3, CHR 0xD0, CHR 0xBE, CHR 0xD1,
     CHR 0x82, CHR 0xD0, CHR 0xBE, CHR 0xD0, CHR 0xB2, CHR 0xD0, CHR 0xBE, CHR 0xD0,
     CHR 0xB3, CHR 0xD0, CHR 0xBE] @ '' NIF.''"

definition embassy_name :: string where
  "embassy_name =
     [CHR 0xD0, CHR 0x9F, CHR 0xD0, CHR 0xBE, CHR 0xD0, CHR 0xB4, CHR 0xD0, CHR 0xB4,
     CHR 0xD0, CHR 0xB5, CHR 0xD1, CHR 0x80, CHR 0xD0, CHR 0xB6, CHR 0xD0, CHR 0xBA,
     CHR 0xD0, CHR 0xB0] @ '' '' @ [CHR 0xD0, CHR 0xB2] @ '' '' @ [CHR 0xD0, CHR 0xBF,
     CHR 0xD0, CHR 0xBE, CHR 0xD1, CHR 0x81, CHR 0xD0, CHR 0xBE, CHR 0xD0, CHR 0xBB,
     CHR 0xD1, CHR 0x8C, CHR 0xD1, CHR 0x81, CHR 0xD1, CHR 0x82, CHR 0xD0, CHR 0xB2,
     CHR 0xD0, CHR 0xB5]"

definition embassy_description :: string where
  "embassy_description =
     [CHR 0xD0, CHR 0x9F, CHR 0xD0, CHR 0xBE, CHR 0xD0, CHR 0xBB, CHR 0xD0, CHR 0xBD,
     CHR 0xD0, CHR 0xBE, CHR 0xD0, CHR 0xB5] @ '' '' @ [CHR 0xD1, CHR 0x81, CHR 0xD0,
     CHR 0xBE, CHR 0xD0, CHR 0xBF, CHR 0xD1, CHR 0x80, CHR 0xD0, CHR 0xBE, CHR 0xD0,
     CHR 0xB2, CHR 0xD0, CHR 0xBE, CHR 0xD0, CHR 0xB6, CHR 0xD0, CHR 0xB4, CHR 0xD0,
     CHR 0xB5, CHR 0xD0, CHR 0xBD, CHR 0xD0, CHR 0xB8, CHR 0xD0, CHR 0xB5] @ '' ''
     @ [CHR 0xD0, CHR 0xBF, CHR 0xD1, CHR 0x80, CHR 0xD0, CHR 0xB8] @ '' ''
     @ [CHR 0xD0, CHR 0xBF, CHR 0xD0, CHR 0xBE, CHR 0xD0, CHR 0xB4, CHR 0xD0, CHR 0xB0,
     CHR 0xD1, CHR 0x87, CHR 0xD0, CHR 0xB5] @ '' '' @ [CHR 0xD0, CHR 0xB4, CHR 0xD0,
     CHR 0xBE, CHR 0xD0, CHR 0xBA, CHR 0xD1, CHR 0x83, CHR 0xD0, CHR 0xBC, CHR 0xD0,
     CHR 0xB5, CHR 0xD0, CHR 0xBD, CHR 0xD1, CHR 0x82, CHR 0xD0, CHR 0xBE, CHR 0xD0,
     CHR 0xB2] @ '' '' @ [CHR 0xD0, CHR 0xB2] @ '' '' @ [CHR 0xD0, CHR 0xBA, CHR 0xD0,
     CHR 0xBE, CHR 0xD0, CHR 0xBD, CHR 0xD1, CHR 0x81, CHR 0xD1, CHR 0x83, CHR 0xD0,
     CHR 0xBB, CHR 0xD1, CHR 0x8C, CHR 0xD1, CHR 0x81, CHR 0xD1, CHR 0x82, CHR 0xD0,
     CHR 0xB2, CHR 0xD0, CHR 0xBE] @ ''/'' @ [CHR 0xD0, CHR 0xBF, CHR 0xD0, CHR 0xBE,
     CHR 0xD1, CHR 0x81, CHR 0xD0, CHR 0xBE, CHR 0xD0, CHR 0xBB, CHR 0xD1, CHR 0x8C,
     CHR 0xD1, CHR 0x81, CHR 0xD1, CHR 0x82, CHR 0xD0, CHR 0xB2, CHR 0xD0, CHR 0xBE]
     @ '' '' @ [CHR 0xD0, CHR 0x9F, CHR 0xD0, CHR 0xBE, CHR 0xD1, CHR 0x80, CHR 0xD1,
     CHR 0x82, CHR 0xD1, CHR 0x83, CHR 0xD0, CHR 0xB3, CHR 0xD0, CHR 0xB0, CHR 0xD0,
     CHR 0xBB, CHR 0xD0, CHR 0xB8, CHR 0xD0, CHR 0xB8] @ ''. '' @ [CHR 0xD0, CHR 0x92,
     CHR 0xD0, CHR 0xBA, CHR 0xD0, CHR 0xBB, CHR 0xD1, CHR 0x8E, CHR 0xD1, CHR 0x87,
     CHR 0xD0, CHR 0xB0, CHR 0xD0, CHR 0xB5, CHR 0xD1, CHR 0x82] @ '' '' @ [CHR 0xD0,
     CHR 0xBF, CHR 0xD1, CHR 0x80, CHR 0xD0, CHR 0xB5, CHR 0xD0, CHR 0xB4, CHR 0xD0,
     CHR 0xB2, CHR 0xD0, CHR 0xB0, CHR 0xD1, CHR 0x80, CHR 0xD0, CHR 0xB8, CHR 0xD1,
     CHR 0x82, CHR 0xD0, CHR 0xB5, CHR 0xD0, CHR 0xBB, CHR 0xD1, CHR 0x8C, CHR 0xD0,
     CHR 0xBD, CHR 0xD1, CHR 0x83, CHR 0xD1, CHR 0x8E] @ '' '' @ [CHR 0xD0, CHR 0xB7,
     CHR 0xD0, CHR 0xB0, CHR 0xD0, CHR 0xBF, CHR 0xD0, CHR 0xB8, CHR 0xD1, CHR 0x81,
     CHR 0xD1, CHR 0x8C] @ '', '' @ [CHR 0xD0, CHR 0xBF, CHR 0xD0, CHR 0xBE, CHR 0xD0,
     CHR 0xB4, CHR 0xD0, CHR 0xB3, CHR 0xD0, CHR 0xBE, CHR 0xD1, CHR 0x82, CHR 0xD0,
     CHR 0xBE, CHR 0xD0, CHR 0xB2, CHR 0xD0, CHR 0xBA, CHR 0xD1, CHR 0x83] @ '' ''
     @ [CHR 0xD0, CHR 0xBF, CHR 0xD0, CHR 0xB0, CHR 0xD0, CHR 0xBA, CHR 0xD0, CHR 0xB5,
     CHR 0xD1, CHR 0x82, CHR 0xD0, CHR 0xB0] @ '' '' @ [CHR 0xD0, CHR 0xB4, CHR 0xD0,
     CHR 0xBE, CHR 0xD0, CHR 0xBA, CHR 0xD1, CHR 0x83, CHR 0xD0, CHR 0xBC, CHR 0xD0,
     CHR 0xB5, CHR 0xD0, CHR 0xBD, CHR 0xD1, CHR 0x82, CHR 0xD0, CHR 0xBE, CHR 0xD0,
     CHR 0xB2] @ '', '' @ [CHR 0xD0, CHR 0xBA, CHR 0xD0, CHR 0xBE, CHR 0xD0, CHR 0xBD,
     CHR 0xD1, CHR 0x81, CHR 0xD1, CHR 0x83, CHR 0xD0, CHR 0xBB, CHR 0xD1, CHR 0x8C,
     CHR 0xD1, CHR 0x82, CHR 0xD0, CHR 0xB0, CHR 0xD1, CHR 0x86, CHR 0xD0, CHR 0xB8,
     CHR 0xD1, CHR 0x8E] @ '' '' @ [CHR 0xD0, CHR 0xBF, CHR 0xD0, CHR 0xB5, CHR 0xD1,
     CHR 0x80, CHR 0xD0, CHR 0xB5, CHR 0xD0, CHR 0xB4] @ '' '' @ [CHR 0xD0, CHR 0xBF,
     CHR 0xD0, CHR 0xBE, CHR 0xD0, CHR 0xB4, CHR 0xD0, CHR 0xB0, CHR 0xD1, CHR 0x87,
     CHR 0xD0, CHR 0xB5, CHR 0xD0, CHR 0xB9] @ '' '' @ [CHR 0xD0, CHR 0xB8] @ '' ''
     @ [CHR 0xD0, CHR 0xBF, CHR 0xD0, CHR 0xBE, CHR 0xD0, CHR 0xBC, CHR 0xD0, CHR 0xBE,
     CHR 0xD1, CHR 0x89, CHR 0xD1, CHR 0x8C] @ '' '' @ [CHR 0xD0, CHR 0xB2] @ '' ''
     @ [CHR 0xD1, CHR 0x81, CHR 0xD0, CHR 0xBB, CHR 0xD1, CHR 0x83, CHR 0xD1, CHR 0x87,
     CHR 0xD0, CHR 0xB0, CHR 0xD0, CHR 0xB5] @ '' '' @ [CHR 0xD0, CHR 0xB4, CHR 0xD0,
     CHR 0xBE, CHR 0xD0, CHR 0xBF, CHR 0xD0, CHR 0xBE, CHR 0xD0, CHR 0xBB, CHR 0xD0,
     CHR 0xBD, CHR 0xD0, CHR 0xB8, CHR 0xD1, CHR 0x82, CHR 0xD0, CHR 0xB5, CHR 0xD0,
     CHR 0xBB, CHR 0xD1, CHR 0x8C, CHR 0xD0, CHR 0xBD, CHR 0xD1, CHR 0x8B, CHR 0xD1,
     CHR 0x85] @ '' '' @ [CHR 0xD0, CHR 0xB7, CHR 0xD0, CHR 0xB0, CHR 0xD0, CHR 0xBF,
     CHR 0xD1, CHR 0x80, CHR 0xD0, CHR 0xBE, CHR 0xD1, CHR 0x81, CHR 0xD0, CHR 0xBE,
     CHR 0xD0, CHR 0xB2] @ ''.''"

definition niss_name :: string where
  "niss_name =
     ''NISS '' @ [CHR 0xD0, CHR 0xBD, CHR 0xD0, CHR 0xBE, CHR 0xD0, CHR 0xBC, CHR 0xD0,
     CHR 0xB5, CHR 0xD1, CHR 0x80]"

definition niss_description :: string where
  "niss_description =
     [CHR 0xD0, CHR 0x9F, CHR 0xD0, CHR 0xBE, CHR 0xD0, CHR 0xBB, CHR 0xD1, CHR 0x83,
     CHR 0xD1, CHR 0x87, CHR 0xD0, CHR 0xB5, CHR 0xD0, CHR 0xBD, CHR 0xD0, CHR 0xB8,
     CHR 0xD0, CHR 0xB5] @ '' '' @ [CHR 0xD0, CHR 0xBD, CHR 0xD0, CHR 0xBE, CHR 0xD0,
     CHR 0xBC, CHR 0xD0, CHR 0xB5, CHR 0xD1, CHR 0x80, CHR 0xD0, CHR 0xB0] @ '' ''
     @ [CHR 0xD1, CHR 0x81, CHR 0xD0, CHR 0xBE, CHR 0xD1, CHR 0x86, CHR 0xD0, CHR 0xB8,
     CHR 0xD0, CHR 0xB0, CHR 0xD0, CHR 0xBB, CHR 0xD1, CHR 0x8C, CHR 0xD0, CHR 0xBD,
     CHR 0xD0, CHR 0xBE, CHR 0xD0, CHR 0xB3, CHR 0xD0, CHR 0xBE] @ '' '' @ [CHR 0xD1,
     CHR 0x81, CHR 0xD1, CHR 0x82, CHR 0xD1, CHR 0x80, CHR 0xD0, CHR 0xB0, CHR 0xD1,
     CHR 0x85, CHR 0xD0, CHR 0xBE, CHR 0xD0, CHR 0xB2, CHR 0xD0, CHR 0xB0, CHR 0xD0,
     CHR 0xBD, CHR 0xD0, CHR 0xB8, CHR 0xD1, CHR 0x8F] @ '' NISS (N'' @ [CHR 0xC3,
     CHR 0xBA] @ ''mero de Identifica'' @ [CHR 0xC3, CHR 0xA7, CHR 0xC3, CHR 0xA3]
     @ ''o da Seguran'' @ [CHR 0xC3, CHR 0xA7] @ ''a Social) - '' @ [CHR 0xD0,
     CHR 0xBD, CHR 0xD0, CHR 0xB5, CHR 0xD0, CHR 0xBE, CHR 0xD0, CHR 0xB1, CHR 0xD1,
     CHR 0x85, CHR 0xD0, CHR 0xBE, CHR 0xD0, CHR 0xB4, CHR 0xD0, CHR 0xB8, CHR 0xD0,
     CHR 0xBC] @ '' '' @ [CHR 0xD0, CHR 0xB4, CHR 0xD0, CHR 0xBB, CHR 0xD1, CHR 0x8F]
     @ '' '' @ [CHR 0xD1, CHR 0x80, CHR 0xD0, CHR 0xB0, CHR 0xD0, CHR 0xB1, CHR 0xD0,
     CHR 0xBE, CHR 0xD1, CHR 0x82, CHR 0xD1, CHR 0x8B] @ '' '' @ [CHR 0xD0, CHR 0xB8]
     @ '' '' @ [CHR 0xD0, CHR 0xBF, CHR 0xD0, CHR 0xBE, CHR 0xD0, CHR 0xBB, CHR 0xD1,
     CHR 0x83, CHR 0xD1, CHR 0x87, CHR 0xD0, CHR 0xB5, CHR 0xD0, CHR 0xBD, CHR 0xD0,
     CHR 0xB8, CHR 0xD1, CHR 0x8F] @ '' '' @ [CHR 0xD1, CHR 0x81, CHR 0xD0, CHR 0xBE,
     CHR 0xD1, CHR 0x86, CHR 0xD0, CHR 0xB8, CHR 0xD0, CHR 0xB0, CHR 0xD0, CHR 0xBB,
     CHR 0xD1, CHR 0x8C, CHR 0xD0, CHR 0xBD, CHR 0xD1, CHR 0x8B, CHR 0xD1, CHR 0x85]
     @ '' '' @ [CHR 0xD1, CHR 0x83, CHR 0xD1, CHR 0x81, CHR 0xD0, CHR 0xBB, CHR 0xD1,
     CHR 0x83, CHR 0xD0, CHR 0xB3] @ '' '' @ [CHR 0xD0, CHR 0xB2] @ '' '' @ [CHR 0xD0,
     CHR 0x9F, CHR 0xD0, CHR 0xBE, CHR 0xD1, CHR 0x80, CHR 0xD1, CHR 0x82, CHR 0xD1,
     CHR 0x83, CHR 0xD0, CHR 0xB3, CHR 0xD0, CHR 0xB0, CHR 0xD0, CHR 0xBB, CHR 0xD0,
     CHR 0xB8, CHR 0xD0, CHR 0xB8] @ ''. '' @ [CHR 0xD0, CHR 0x92, CHR 0xD0, CHR 0xBA,
     CHR 0xD0, CHR 0xBB, CHR 0xD1, CHR 0x8E, CHR 0xD1, CHR 0x87, CHR 0xD0, CHR 0xB0,
     CHR 0xD0, CHR 0xB5, CHR 0xD1, CHR 0x82] @ '' '' @ [CHR 0xD0, CHR 0xBF, CHR 0xD0,
     CHR 0xBE, CHR 0xD0, CHR 0xB4, CHR 0xD0, CHR 0xB0, CHR 0xD1, CHR 0x87, CHR 0xD1,
     CHR 0x83] @ '' '' @ [CHR 0xD0, CHR 0xB7, CHR 0xD0, CHR 0xB0, CHR 0xD1, CHR 0x8F,
     CHR 0xD0, CHR 0xB2, CHR 0xD0, CHR 0xBB, CHR 0xD0, CHR 0xB5, CHR 0xD0, CHR 0xBD,
     CHR 0xD0, CHR 0xB8, CHR 0xD1, CHR 0x8F] @ '' '' @ [CHR 0xD0, CHR 0xB8] @ '' ''
     @ [CHR 0xD0, CHR 0xBF, CHR 0xD0, CHR 0xBE, CHR 0xD0, CHR 0xBB, CHR 0xD1, CHR 0x83,
     CHR 0xD1, CHR 0x87, CHR 0xD0, CHR 0xB5, CHR 0xD0, CHR 0xBD, CHR 0xD0, CHR 0xB8,
     CHR 0xD0, CHR 0xB5] @ '' '' @ [CHR 0xD0, CHR 0xB3, CHR 0xD0, CHR 0xBE, CHR 0xD1,
     CHR 0x82, CHR 0xD0, CHR 0xBE, CHR 0xD0, CHR 0xB2, CHR 0xD0, CHR 0xBE, CHR 0xD0,
     CHR 0xB3, CHR 0xD0, CHR 0xBE] @ '' '' @ [CHR 0xD0, CHR 0xBD, CHR 0xD0, CHR 0xBE,
     CHR 0xD0, CHR 0xBC, CHR 0xD0, CHR 0xB5, CHR 0xD1, CHR 0x80, CHR 0xD0, CHR 0xB0]
     @ ''.''"

definition bank_name :: string where
  "bank_name =
     [CHR 0xD0, CHR 0x9E, CHR 0xD1, CHR 0x82, CHR 0xD0, CHR 0xBA, CHR 0xD1, CHR 0x80,
     CHR 0xD1, CHR 0x8B, CHR 0xD1, CHR 0x82, CHR 0xD0, CHR 0xB8, CHR 0xD0, CHR 0xB5]
     @ '' '' @ [CHR 0xD0, CHR 0xB1, CHR 0xD0, CHR 0xB0, CHR 0xD0, CHR 0xBD, CHR 0xD0,
     CHR 0xBA, CHR 0xD0, CHR 0xBE, CHR 0xD0, CHR 0xB2, CHR 0xD1, CHR 0x81, CHR 0xD0,
     CHR 0xBA, CHR 0xD0, CHR 0xBE, CHR 0xD0, CHR 0xB3, CHR 0xD0, CHR 0xBE] @ '' ''
     @ [CHR 0xD1, CHR 0x81, CHR 0xD1, CHR 0x87, CHR 0xD0, CHR 0xB5, CHR 0xD1, CHR 0x82,
     CHR 0xD0, CHR 0xB0]"

definition bank_description :: string where
  "bank_description =
     [CHR 0xD0, CHR 0x9F, CHR 0xD0, CHR 0xBE, CHR 0xD0, CHR 0xBC, CHR 0xD0, CHR 0xBE,
     CHR 0xD1, CHR 0x89, CHR 0xD1, CHR 0x8C] @ '' '' @ [CHR 0xD0, CHR 0xB2] @ '' ''
     @ [CHR 0xD0, CHR 0xBE, CHR 0xD1, CHR 0x82, CHR 0xD0, CHR 0xBA, CHR 0xD1, CHR 0x80,
     CHR 0xD1, CHR 0x8B, CHR 0xD1, CHR 0x82, CHR 0xD0, CHR 0xB8, CHR 0xD0, CHR 0xB8]
     @ '' '' @ [CHR 0xD0, CHR 0xB1, CHR 0xD0, CHR 0xB0, CHR 0xD0, CHR 0xBD, CHR 0xD0,
     CHR 0xBA, CHR 0xD0, CHR 0xBE, CHR 0xD0, CHR 0xB2, CHR 0xD1, CHR 0x81, CHR 0xD0,
     CHR 0xBA, CHR 0xD0, CHR 0xBE, CHR 0xD0, CHR 0xB3, CHR 0xD0, CHR 0xBE] @ '' ''
     @ [CHR 0xD1, CHR 0x81, CHR 0xD1, CHR 0x87, CHR 0xD0, CHR 0xB5, CHR 0xD1, CHR 0x82,
     CHR 0xD0, CHR 0xB0] @ '' '' @ [CHR 0xD0, CHR 0xB2] @ '' '' @ [CHR 0xD0, CHR 0xBF,
     CHR 0xD0, CHR 0xBE, CHR 0xD1, CHR 0x80, CHR 0xD1, CHR 0x82, CHR 0xD1, CHR 0x83,
     CHR 0xD0, CHR 0xB3, CHR 0xD0, CHR 0xB0, CHR 0xD0, CHR 0xBB, CHR 0xD1, CHR 0x8C,
     CHR 0xD1, CHR 0x81, CHR 0xD0, CHR 0xBA, CHR 0xD0, CHR 0xBE, CHR 0xD0, CHR 0xBC]
     @ '' '' @ [CHR 0xD0, CHR 0xB1, CHR 0xD0, CHR 0xB0, CHR 0xD0, CHR 0xBD, CHR 0xD0,
     CHR 0xBA, CHR 0xD0, CHR 0xB5] @ ''. '' @ [CHR 0xD0, CHR 0x92, CHR 0xD0, CHR 0xBA,
     CHR 0xD0, CHR 0xBB, CHR 0xD1, CHR 0x8E, CHR 0xD1, CHR 0x87, CHR 0xD0, CHR 0xB0,
     CHR 0xD0, CHR 0xB5, CHR 0xD1, CHR 0x82] @ '' '' @ [CHR 0xD0, CHR 0xB2, CHR 0xD1,
     CHR 0x8B, CHR 0xD0, CHR 0xB1, CHR 0xD0, CHR 0xBE, CHR 0xD1, CHR 0x80] @ '' ''
     @ [CHR 0xD0, CHR 0xBE, CHR 0xD0, CHR 0xBF, CHR 0xD1, CHR 0x82, CHR 0xD0, CHR 0xB8,
     CHR 0xD0, CHR 0xBC, CHR 0xD0, CHR 0xB0, CHR 0xD0, CHR 0xBB, CHR 0xD1, CHR 0x8C,
     CHR 0xD0, CHR 0xBD, CHR 0xD0, CHR 0xBE, CHR 0xD0, CHR 0xB3, CHR 0xD0, CHR 0xBE]
     @ '' '' @ [CHR 0xD0, CHR 0xB1, CHR 0xD0, CHR 0xB0, CHR 0xD0, CHR 0xBD, CHR 0xD0,
     CHR 0xBA, CHR 0xD0, CHR 0xB0] @ '', '' @ [CHR 0xD0, CHR 0xBF, CHR 0xD0, CHR 0xBE,
     CHR 0xD0, CHR 0xB4, CHR 0xD0, CHR 0xB3, CHR 0xD0, CHR 0xBE, CHR 0xD1, CHR 0x82,
     CHR 0xD0, CHR 0xBE, CHR 0xD0, CHR 0xB2, CHR 0xD0, CHR 0xBA, CHR 0xD1, CHR 0x83]
     @ '' '' @ [CHR 0xD0, CHR 0xB4, CHR 0xD0, CHR 0xBE, CHR 0xD0, CHR 0xBA, CHR 0xD1,
     CHR 0x83, CHR 0xD0, CHR 0xBC, CHR 0xD0, CHR 0xB5, CHR 0xD0, CHR 0xBD, CHR 0xD1,
     CHR 0x82, CHR 0xD0, CHR 0xBE, CHR 0xD0, CHR 0xB2] @ '', '' @ [CHR 0xD1, CHR 0x81,
     CHR 0xD0, CHR 0xBE, CHR 0xD0, CHR 0xBF, CHR 0xD1, CHR 0x80, CHR 0xD0, CHR 0xBE,
     CHR 0xD0, CHR 0xB2, CHR 0xD0, CHR 0xBE, CHR 0xD0, CHR 0xB6, CHR 0xD0, CHR 0xB4,
     CHR 0xD0, CHR 0xB5, CHR 0xD0, CHR 0xBD, CHR 0xD0, CHR 0xB8, CHR 0xD0, CHR 0xB5]
     @ '' '' @ [CHR 0xD0, CHR 0xBF, CHR 0xD1, CHR 0x80, CHR 0xD0, CHR 0xB8] @ '' ''
     @ [CHR 0xD0, CHR 0xB2, CHR 0xD0, CHR 0xB8, CHR 0xD0, CHR 0xB7, CHR 0xD0, CHR 0xB8,
     CHR 0xD1, CHR 0x82, CHR 0xD0, CHR 0xB5] @ '' '' @ [CHR 0xD0, CHR 0xB2] @ '' ''
     @ [CHR 0xD0, CHR 0xB1, CHR 0xD0, CHR 0xB0, CHR 0xD0, CHR 0xBD, CHR 0xD0, CHR 0xBA]
     @ '' '' @ [CHR 0xD0, CHR 0xB8] @ '' '' @ [CHR 0xD0, CHR 0xBF, CHR 0xD0, CHR 0xBE,
     CHR 0xD0, CHR 0xBB, CHR 0xD1, CHR 0x83, CHR 0xD1, CHR 0x87, CHR 0xD0, CHR 0xB5,
     CHR 0xD0, CHR 0xBD, CHR 0xD0, CHR 0xB8, CHR 0xD0, CHR 0xB5] @ '' '' @ [CHR 0xD0,
     CHR 0xB1, CHR 0xD0, CHR 0xB0, CHR 0xD0, CHR 0xBD, CHR 0xD0, CHR 0xBA, CHR 0xD0,
     CHR 0xBE, CHR 0xD0, CHR 0xB2, CHR 0xD1, CHR 0x81, CHR 0xD0, CHR 0xBA, CHR 0xD0,
     CHR 0xB8, CHR 0xD1, CHR 0x85] @ '' '' @ [CHR 0xD0, CHR 0xBA, CHR 0xD0, CHR 0xB0,
     CHR 0xD1, CHR 0x80, CHR 0xD1, CHR 0x82] @ ''.''"

text \<open>Descriptions of the three discount rules (lines 86, 92, 98).\<close>

definition bulk_description :: string where
  "bulk_description =
     [CHR 0xD0, CHR 0xA1, CHR 0xD0, CHR 0xBA, CHR 0xD0, CHR 0xB8, CHR 0xD0, CHR 0xB4,
     CHR 0xD0, CHR 0xBA, CHR 0xD0, CHR 0xB0] @ '' 15% '' @ [CHR 0xD0, CHR 0xBF,
     CHR 0xD1, CHR 0x80, CHR 0xD0, CHR 0xB8] @ '' '' @ [CHR 0xD0, CHR 0xB7, CHR 0xD0,
     CHR 0xB0, CHR 0xD0, CHR 0xBA, CHR 0xD0, CHR 0xB0, CHR 0xD0, CHR 0xB7, CHR 0xD0,
     CHR 0xB5] @ '' '' @ [CHR 0xD0, CHR 0xB2, CHR 0xD1, CHR 0x81, CHR 0xD0, CHR 0xB5,
     CHR 0xD1, CHR 0x85] @ '' '' @ [CHR 0xD1, CHR 0x83, CHR 0xD1, CHR 0x81, CHR 0xD0,
     CHR 0xBB, CHR 0xD1, CHR 0x83, CHR 0xD0, CHR 0xB3]"

definition promo_description :: string where
  "promo_description =
     [CHR 0xD0, CHR 0x9F, CHR 0xD1, CHR 0x80, CHR 0xD0, CHR 0xBE, CHR 0xD0, CHR 0xBC,
     CHR 0xD0, CHR 0xBE, CHR 0xD0, CHR 0xBA, CHR 0xD0, CHR 0xBE, CHR 0xD0, CHR 0xB4]
     @ '' '' @ [CHR 0xD0, CHR 0xBD, CHR 0xD0, CHR 0xB0] @ '' 10% '' @ [CHR 0xD1,
     CHR 0x81, CHR 0xD0, CHR 0xBA, CHR 0xD0, CHR 0xB8, CHR 0xD0, CHR 0xB4, CHR 0xD0,
     CHR 0xBA, CHR 0xD1, CHR 0x83]"

definition first_time_description :: string where
  "first_time_description =
     [CHR 0xD0, CHR 0xA1, CHR 0xD0, CHR 0xBA, CHR 0xD0, CHR 0xB8, CHR 0xD0, CHR 0xB4,
     CHR 0xD0, CHR 0xBA, CHR 0xD0, CHR 0xB0] @ '' 5% '' @ [CHR 0xD0, CHR 0xB4,
     CHR 0xD0, CHR 0xBB, CHR 0xD1, CHR 0x8F] @ '' '' @ [CHR 0xD0, CHR 0xBD, CHR 0xD0,
     CHR 0xBE, CHR 0xD0, CHR 0xB2, CHR 0xD1, CHR 0x8B, CHR 0xD1, CHR 0x85] @ '' ''
     @ [CHR 0xD0, CHR 0xBA, CHR 0xD0, CHR 0xBB, CHR 0xD0, CHR 0xB8, CHR 0xD0, CHR 0xB5,
     CHR 0xD0, CHR 0xBD, CHR 0xD1, CHR 0x82, CHR 0xD0, CHR 0xBE, CHR 0xD0, CHR 0xB2]"

text \<open>Messages of the toasts (lines 164, 174, 176, 188, 198).\<close>

definition select_service_message :: string where
  "select_service_message =
     [CHR 0xD0, CHR 0x92, CHR 0xD1, CHR 0x8B, CHR 0xD0, CHR 0xB1, CHR 0xD0, CHR 0xB5,
     CHR 0xD1, CHR 0x80, CHR 0xD0, CHR 0xB8, CHR 0xD1, CHR 0x82, CHR 0xD0, CHR 0xB5]
     @ '' '' @ [CHR 0xD1, CHR 0x85, CHR 0xD0, CHR 0xBE, CHR 0xD1, CHR 0x82, CHR 0xD1,
     CHR 0x8F] @ '' '' @ [CHR 0xD0, CHR 0xB1, CHR 0xD1, CHR 0x8B] @ '' '' @ [CHR 0xD0,
     CHR 0xBE, CHR 0xD0, CHR 0xB4, CHR 0xD0, CHR 0xBD, CHR 0xD1, CHR 0x83] @ '' ''
     @ [CHR 0xD1, CHR 0x83, CHR 0xD1, CHR 0x81, CHR 0xD0, CHR 0xBB, CHR 0xD1, CHR 0x83,
     CHR 0xD0, CHR 0xB3, CHR 0xD1, CHR 0x83]"

definition data_saved_message :: string where
  "data_saved_message =
     [CHR 0xD0, CHR 0x94, CHR 0xD0, CHR 0xB0, CHR 0xD0, CHR 0xBD, CHR 0xD0, CHR 0xBD,
     CHR 0xD1, CHR 0x8B, CHR 0xD0, CHR 0xB5] @ '' '' @ [CHR 0xD1, CHR 0x83, CHR 0xD1,
     CHR 0x81, CHR 0xD0, CHR 0xBF, CHR 0xD0, CHR 0xB5, CHR 0xD1, CHR 0x88, CHR 0xD0,
     CHR 0xBD, CHR 0xD0, CHR 0xBE] @ '' '' @ [CHR 0xD1, CHR 0x81, CHR 0xD0, CHR 0xBE,
     CHR 0xD1, CHR 0x85, CHR 0xD1, CHR 0x80, CHR 0xD0, CHR 0xB0, CHR 0xD0, CHR 0xBD,
     CHR 0xD0, CHR 0xB5, CHR 0xD0, CHR 0xBD, CHR 0xD1, CHR 0x8B] @ ''!''"

definition fix_errors_message :: string where
  "fix_errors_message =
     [CHR 0xD0, CHR 0x9F, CHR 0xD0, CHR 0xBE, CHR 0xD0, CHR 0xB6, CHR 0xD0, CHR 0xB0,
     CHR 0xD0, CHR 0xBB, CHR 0xD1, CHR 0x83, CHR 0xD0, CHR 0xB9, CHR 0xD1, CHR 0x81,
     CHR 0xD1, CHR 0x82, CHR 0xD0, CHR 0xB0] @ '', '' @ [CHR 0xD0, CHR 0xB8, CHR 0xD1,
     CHR 0x81, CHR 0xD0, CHR 0xBF, CHR 0xD1, CHR 0x80, CHR 0xD0, CHR 0xB0, CHR 0xD0,
     CHR 0xB2, CHR 0xD1, CHR 0x8C, CHR 0xD1, CHR 0x82, CHR 0xD0, CHR 0xB5] @ '' ''
     @ [CHR 0xD0, CHR 0xBE, CHR 0xD1, CHR 0x88, CHR 0xD0, CHR 0xB8, CHR 0xD0, CHR 0xB1,
     CHR 0xD0, CHR 0xBA, CHR 0xD0, CHR 0xB8] @ '' '' @ [CHR 0xD0, CHR 0xB2] @ '' ''
     @ [CHR 0xD1, CHR 0x84, CHR 0xD0, CHR 0xBE, CHR 0xD1, CHR 0x80, CHR 0xD0, CHR 0xBC,
     CHR 0xD0, CHR 0xB5]"

definition payment_done_prefix :: string where
  "payment_done_prefix =
     [CHR 0xD0, CHR 0x9E, CHR 0xD0, CHR 0xBF, CHR 0xD0, CHR 0xBB, CHR 0xD0, CHR 0xB0,
     CHR 0xD1, CHR 0x82, CHR 0xD0, CHR 0xB0] @ '' '' @ [CHR 0xD1, CHR 0x83, CHR 0xD1,
     CHR 0x81, CHR 0xD0, CHR 0xBF, CHR 0xD0, CHR 0xB5, CHR 0xD1, CHR 0x88, CHR 0xD0,
     CHR 0xBD, CHR 0xD0, CHR 0xBE] @ '' '' @ [CHR 0xD0, CHR 0xBF, CHR 0xD1, CHR 0x80,
     CHR 0xD0, CHR 0xBE, CHR 0xD0, CHR 0xB2, CHR 0xD0, CHR 0xB5, CHR 0xD0, CHR 0xB4,
     CHR 0xD0, CHR 0xB5, CHR 0xD0, CHR 0xBD, CHR 0xD0, CHR 0xB0] @ '' '' @ [CHR 0xD1,
     CHR 0x87, CHR 0xD0, CHR 0xB5, CHR 0xD1, CHR 0x80, CHR 0xD0, CHR 0xB5, CHR 0xD0,
     CHR 0xB7] @ '' ''"

definition payment_error_message :: string where
  "payment_error_message =
     [CHR 0xD0, CHR 0x9E, CHR 0xD1, CHR 0x88, CHR 0xD0, CHR 0xB8, CHR 0xD0, CHR 0xB1,
     CHR 0xD0, CHR 0xBA, CHR 0xD0, CHR 0xB0] @ '' '' @ [CHR 0xD0, CHR 0xBF, CHR 0xD1,
     CHR 0x80, CHR 0xD0, CHR 0xB8] @ '' '' @ [CHR 0xD0, CHR 0xBE, CHR 0xD0, CHR 0xB1,
     CHR 0xD1, CHR 0x80, CHR 0xD0, CHR 0xB0, CHR 0xD0, CHR 0xB1, CHR 0xD0, CHR 0xBE,
     CHR 0xD1, CHR 0x82, CHR 0xD0, CHR 0xBA, CHR 0xD0, CHR 0xB5] @ '' '' @ [CHR 0xD0,
     CHR 0xBF, CHR 0xD0, CHR 0xBB, CHR 0xD0, CHR 0xB0, CHR 0xD1, CHR 0x82, CHR 0xD0,
     CHR 0xB5, CHR 0xD0, CHR 0xB6, CHR 0xD0, CHR 0xB0]"

section \<open>Initial state\<close>

text \<open>The argument of \<^verbatim>\<open>useState<Service[]>\<close> (lines 33-66).\<close>

definition initial_services :: "Service list" where
  "initial_services =
     [\<lparr>svc_id = ''1'', svc_name = nif_name, description = nif_description,
        price = 100, selected = False, category = essential\<rparr>,
      \<lparr>svc_id = ''2'', svc_name = embassy_name, description = embassy_description,
        price = 300, selected = False, category = essential\<rparr>,
      \<lparr>svc_id = ''3'', svc_name = niss_name, description = niss_description,
        price = 300, selected = False, category = additional\<rparr>,
      \<lparr>svc_id = ''4'', svc_name = bank_name, description = bank_description,
        price = 400, selected = False, category = premium\<rparr>]"

definition empty_form :: FormData where
  "empty_form = \<lparr>name = '''', email = '''', phone = '''', promoCode = ''''\<rparr>"

definition initial_state :: app_state where
  "initial_state =
     \<lparr>services = initial_services, formData = empty_form, formErrors = Map.empty,
      termsAccepted = False, showContactForm = False, isProcessing = False,
      currentStep = selection\<rparr>"

section \<open>Pricing engine\<close>

subsection \<open>Upper case\<close>

text \<open>
  \<^verbatim>\<open>String.prototype.toUpperCase\<close> on the letters \<open>a\<close> to \<open>z\<close>; every other
  character is left as it is. (The conversion of characters outside ASCII is not
  modelled.) \<open>toLowerCase\<close> is its counterpart and serves only to say that two
  strings are equal up to letter case.
\<close>

definition upper_char :: "char \<Rightarrow> char" where
  "upper_char c =
     (case map_of (zip ''abcdefghijklmnopqrstuvwxyz'' ''ABCDEFGHIJKLMNOPQRSTUVWXYZ'') c of
        Some u \<Rightarrow> u
      | None \<Rightarrow> c)"

definition lower_char :: "char \<Rightarrow> char" where
  "lower_char c =
     (case map_of (zip ''ABCDEFGHIJKLMNOPQRSTUVWXYZ'' ''abcdefghijklmnopqrstuvwxyz'') c of
        Some l \<Rightarrow> l
      | None \<Rightarrow> c)"

definition toUpperCase :: "string \<Rightarrow> string" where
  "toUpperCase s = map upper_char s"

definition toLowerCase :: "string \<Rightarrow> string" where
  "toLowerCase s = map lower_char s"

definition equal_ignoring_case :: "string \<Rightarrow> string \<Rightarrow> bool" where
  "equal_ignoring_case a b \<longleftrightarrow> toLowerCase a = toLowerCase b"

subsection \<open>Discount rules (lines 82-101)\<close>

definition bulk_condition :: "Service list \<Rightarrow> FormData option \<Rightarrow> bool" where
  "bulk_condition svcs fd \<longleftrightarrow> list_all (\<lambda>s. selected s) svcs"

text \<open>
  \<^verbatim>\<open>formData?.promoCode.toUpperCase() === 'DIGITAL2024'\<close>: without form data the
  left side is \<^verbatim>\<open>undefined\<close> and the comparison is false.
\<close>

definition promo_condition :: "Service list \<Rightarrow> FormData option \<Rightarrow> bool" where
  "promo_condition svcs fd \<longleftrightarrow>
     (case fd of
        None \<Rightarrow> False
      | Some f \<Rightarrow> toUpperCase (promoCode f) = ''DIGITAL2024'')"

definition first_time_condition :: "Service list \<Rightarrow> FormData option \<Rightarrow> bool" where
  "first_time_condition svcs fd \<longleftrightarrow> length (filter (\<lambda>s. selected s) svcs) \<ge> 2"

definition discountRules :: "DiscountRule list" where
  "discountRules =
     [\<lparr>rule_type = bulk, rule_value = 15 / 100, rule_description = bulk_description,
        condition = Some bulk_condition\<rparr>,
      \<lparr>rule_type = promo, rule_value = 10 / 100, rule_description = promo_description,
        condition = Some promo_condition\<rparr>,
      \<lparr>rule_type = first_time, rule_value = 5 / 100,
        rule_description = first_time_description,
        condition = Some first_time_condition\<rparr>]"

subsection \<open>calculateTotal (lines 114-140)\<close>

text \<open>
  \<^verbatim>\<open>rule.condition && rule.condition(services, formData)\<close>: a rule without a
  condition never applies.
\<close>

definition applies :: "DiscountRule \<Rightarrow> Service list \<Rightarrow> FormData \<Rightarrow> bool" where
  "applies rule svcs fd \<longleftrightarrow>
     (case condition rule of
        None \<Rightarrow> False
      | Some c \<Rightarrow> c svcs (Some fd))"

text \<open>
  One round of the \<^verbatim>\<open>forEach\<close> over the rules (lines 122-127), on the two variables
  it updates: \<^verbatim>\<open>totalDiscount\<close> and \<^verbatim>\<open>appliedDiscounts\<close>.
\<close>

definition apply_rule ::
  "Service list \<Rightarrow> FormData \<Rightarrow> number \<times> string list \<Rightarrow> DiscountRule \<Rightarrow> number \<times> string list"
where
  "apply_rule svcs fd acc rule =
     (case acc of
        (totalDiscount, applied) \<Rightarrow>
          if applies rule svcs fd
          then (max totalDiscount (rule_value rule), applied @ [rule_description rule])
          else (totalDiscount, applied))"

definition calculateTotal :: "Service list \<Rightarrow> FormData \<Rightarrow> Calculation" where
  "calculateTotal svcs fd =
     (let selectedServices = filter (\<lambda>s. selected s) svcs;
          subtotal = foldl (\<lambda>sum service. sum + price service) 0 selectedServices;
          (totalDiscount, applied) = foldl (apply_rule svcs fd) (0, []) discountRules;
          discountAmount = subtotal * totalDiscount;
          total = subtotal - discountAmount
      in \<lparr>subtotal = subtotal, discount = totalDiscount, discountAmount = discountAmount,
          total = total, appliedDiscounts = applied, selectedServices = selectedServices\<rparr>)"

section \<open>Handlers\<close>

subsection \<open>toggleService (lines 103-112)\<close>

text \<open>
  The updater handed to \<^verbatim>\<open>setServices\<close>. The call of \<^verbatim>\<open>navigator.vibrate\<close> that
  follows touches no state of the component.
\<close>

definition toggleService :: "string \<Rightarrow> Service list \<Rightarrow> Service list" where
  "toggleService i prev =
     map (\<lambda>service. if svc_id service = i
                      then service\<lparr>selected := \<not> selected service\<rparr>
                      else service) prev"

subsection \<open>validateContactForm (lines 142-158)\<close>

definition validationRules :: validation_rules where
  "validationRules =
     [(''name'', [required, minLength 2]),
      (''email'', [required, email_format]),
      (''phone'', [required, phone_format])]"

text \<open>
  The errors are written into a fresh record, a later error of a field replacing an
  earlier one; the record becomes \<^verbatim>\<open>formErrors\<close> and the result says whether there
  was no error.
\<close>

definition validateContactForm :: "validator \<Rightarrow> app_state \<Rightarrow> bool \<times> app_state" where
  "validateContactForm validateForm s =
     (let errors = validateForm (formData s) validationRules;
          errorMap = foldl (\<lambda>m e. m(fst e \<mapsto> snd e)) Map.empty errors
      in (length errors = 0, s\<lparr>formErrors := errorMap\<rparr>))"

subsection \<open>handleNextStep (lines 160-179)\<close>

definition handleNextStep :: "validator \<Rightarrow> app_state \<Rightarrow> toast list \<times> app_state" where
  "handleNextStep validateForm s =
     (let calculation = calculateTotal (services s) (formData s)
      in if length (selectedServices calculation) = 0
         then ([(select_service_message, warning)], s)
         else if currentStep s = selection
         then ([], s\<lparr>currentStep := contact, showContactForm := True\<rparr>)
         else if currentStep s = contact
         then (case validateContactForm validateForm s of
                 (valid, s') \<Rightarrow>
                   if valid
                   then ([(data_saved_message, success)], s'\<lparr>currentStep := payment\<rparr>)
                   else ([(fix_errors_message, error)], s'))
         else ([], s))"

subsection \<open>handlePayment (lines 181-202)\<close>

text \<open>
  The function is asynchronous. Up to the \<^verbatim>\<open>await\<close> it sets the processing flag.
  What follows the \<^verbatim>\<open>await\<close> depends on how the awaited promise settles: when it
  is fulfilled, the success toast is raised and the form is reset; when it is rejected,
  the \<^verbatim>\<open>catch\<close> branch raises the error toast; \<^verbatim>\<open>finally\<close> clears the flag
  in both cases. The promise is
  \<^verbatim>\<open>new Promise(resolve => setTimeout(resolve, 2000))\<close>, which is fulfilled after
  the delay and never rejected. The amount is not used.
\<close>

datatype settled = fulfilled | rejected


definition handlePayment_resume ::
  "settled \<Rightarrow> string \<Rightarrow> app_state \<Rightarrow> toast list \<times> app_state"
where
  "handlePayment_resume outcome method s =
     (case outcome of
        fulfilled \<Rightarrow>
          ([(payment_done_prefix @ method @ ''!'', success)],
           s\<lparr>services := map (\<lambda>s. s\<lparr>selected := False\<rparr>) (services s),
             formData := \<lparr>name = '''', email = '''', phone = '''', promoCode = ''''\<rparr>,
             currentStep := selection,
             showContactForm := False,
             termsAccepted := False,
             isProcessing := False\<rparr>)
      | rejected \<Rightarrow>
          ([(payment_error_message, error)], s\<lparr>isProcessing := False\<rparr>))"


subsection \<open>The back button (lines 340-350) and the events of the view\<close>

text \<open>
  The updater of the back button (lines 342-344), and the condition under which the
  button is rendered at all (line 340).
\<close>

definition goBack :: "step \<Rightarrow> step" where
  "goBack prev = (if prev = payment then contact else selection)"

definition backButtonShown :: "step \<Rightarrow> bool" where
  "backButtonShown st \<longleftrightarrow> st \<noteq> selection"




section \<open>Notions used in the statements\<close>



text \<open>
  The rules that apply to a selection and a form, in the order of their declaration.
\<close>

definition applicable_rules :: "Service list \<Rightarrow> FormData \<Rightarrow> DiscountRule list" where
  "applicable_rules svcs fd = filter (\<lambda>rule. applies rule svcs fd) discountRules"

text \<open>
  Sample inputs for the instances given after the theorems: a validator that only
  asks for a name of two characters, a form with the promotional code in mixed case,
  and the catalogue with the first and third service selected, and with all four.
\<close>

definition sample_validateForm :: validator where
  "sample_validateForm fd rules =
     (if length (name fd) < 2 then [(''name'', ''name is too short'')] else [])"

definition sample_form :: FormData where
  "sample_form = empty_form\<lparr>promoCode := ''Digital2024''\<rparr>"

definition two_selected :: "Service list" where
  "two_selected = toggleService ''1'' (toggleService ''3'' initial_services)"

definition all_selected :: "Service list" where
  "all_selected =
     toggleService ''1'' (toggleService ''2'' (toggleService ''3''
       (toggleService ''4'' initial_services)))"


section \<open>Properties of the pricing engine\<close>

subsection \<open>The fields of the calculation\<close>

lemma foldl_price:
  "foldl (\<lambda>sum service. sum + price service) a xs = a + sum_list (map price xs)"
  by (induction xs arbitrary: a) (simp_all add: add.assoc)

lemma subtotal_fold:
  "subtotal (calculateTotal svcs fd) =
     foldl (\<lambda>sum service. sum + price service) 0 (filter (\<lambda>s. selected s) svcs)"
  by (simp add: calculateTotal_def Let_def split: prod.split)

lemma discount_fold:
  "discount (calculateTotal svcs fd) =
     fst (foldl (apply_rule svcs fd) (0, []) discountRules)"
  by (simp add: calculateTotal_def Let_def split: prod.split)

lemma appliedDiscounts_fold:
  "appliedDiscounts (calculateTotal svcs fd) =
     snd (foldl (apply_rule svcs fd) (0, []) discountRules)"
  by (simp add: calculateTotal_def Let_def split: prod.split)


text \<open>The loop over the three rules, written out.\<close>

lemma rules_fold:
  "foldl (apply_rule svcs fd) (0, []) discountRules =
     (max (max (max 0 (if bulk_condition svcs (Some fd) then 15 / 100 else 0))
               (if promo_condition svcs (Some fd) then 10 / 100 else 0))
          (if first_time_condition svcs (Some fd) then 5 / 100 else 0),
      (if bulk_condition svcs (Some fd) then [bulk_description] else []) @
      (if promo_condition svcs (Some fd) then [promo_description] else []) @
      (if first_time_condition svcs (Some fd) then [first_time_description] else []))"
  by (simp add: discountRules_def apply_rule_def applies_def)

lemma applicable_rules_cases:
  "applicable_rules svcs fd =
     (if bulk_condition svcs (Some fd) then [discountRules ! 0] else []) @
     (if promo_condition svcs (Some fd) then [discountRules ! 1] else []) @
     (if first_time_condition svcs (Some fd) then [discountRules ! 2] else [])"
  by (simp add: applicable_rules_def discountRules_def applies_def)



subsection \<open>Letter case\<close>

lemma upper_lower_char: "upper_char (lower_char c) = upper_char c"
  unfolding upper_char_def lower_char_def by simp

lemma toUpperCase_toLowerCase: "toUpperCase (toLowerCase s) = toUpperCase s"
  by (simp add: toUpperCase_def toLowerCase_def upper_lower_char)

lemma promo_of_equal_ignoring_case:
  assumes "equal_ignoring_case (promoCode fd) ''digital2024''"
  shows "promo_condition svcs (Some fd)"
proof -
  have "toUpperCase (promoCode fd) = toUpperCase (toLowerCase (promoCode fd))"
    by (simp add: toUpperCase_toLowerCase)
  also have "\<dots> = toUpperCase (toLowerCase ''digital2024'')"
    using assms by (simp add: equal_ignoring_case_def)
  also have "\<dots> = ''DIGITAL2024''"
    by (simp add: toUpperCase_def toLowerCase_def upper_char_def lower_char_def)
  finally show ?thesis
    by (simp add: promo_condition_def)
qed

subsection \<open>Selecting one more service\<close>

lemma filter_update_length:
  assumes "i < length xs" and "\<not> P (xs ! i)" and "P y"
  shows "length (filter P (xs[i := y])) = Suc (length (filter P xs))"
  using assms
proof (induction xs arbitrary: i)
  case Nil
  then show ?case by simp
next
  case (Cons x xs)
  then show ?case by (cases i) auto
qed

section \<open>Properties of the flow\<close>










text \<open>
  The reset leaves the record of field errors alone. It is empty whenever the payment
  starts from the payment step; an error recorded while the payment is pending (after
  going back to the contact step) survives the reset.
\<close>

lemma handlePayment_resume_formErrors:
  "formErrors (snd (handlePayment_resume outcome method s)) = formErrors s"
  by (cases outcome) (simp_all add: handlePayment_resume_def)


section \<open>The claims\<close>



text \<open>
  Claim C2. For every service list and every form, the subtotal of the calculation is
  the sum of the prices of exactly the services whose \<open>selected\<close> flag is true: the
  sum over the selected entries of the list, position by position.
\<close>

theorem calculateTotal_subtotal:
  "subtotal (calculateTotal svcs fd) = sum_list (map price (filter (\<lambda>s. selected s) svcs))
   \<and> subtotal (calculateTotal svcs fd)
       = (\<Sum>k | k < length svcs \<and> selected (svcs ! k). price (svcs ! k))"
proof -
  have first: "subtotal (calculateTotal svcs fd) = sum_list (map price (filter selected svcs))"
    by (simp add: subtotal_fold foldl_price)
  have "sum_list (map price (filter selected svcs)) =
          sum_list (map (\<lambda>x. if selected x then price x else 0) svcs)"
    by (rule sum_list_map_filter')
  also have "\<dots> = (\<Sum>k = 0..<length svcs. if selected (svcs ! k) then price (svcs ! k) else 0)"
    by (simp add: sum_list_sum_nth)
  also have "\<dots> = (\<Sum>k | k < length svcs \<and> selected (svcs ! k). price (svcs ! k))"
  proof -
    have "{k. k < length svcs \<and> selected (svcs ! k)} =
            {k \<in> {0..<length svcs}. selected (svcs ! k)}"
      by auto
    then show ?thesis
      by (simp only: sum.inter_filter [OF finite_atLeastLessThan])
  qed
  finally show ?thesis
    using first by simp
qed

text \<open>
  Claim C3. For every selection and form, the discount of the calculation is the
  largest value among the rules that apply, and 0 when none applies. In particular,
  when all services are selected (all four of the catalogue), it is 0.15, whichever
  other rules apply as well.
\<close>

theorem calculateTotal_discount_is_max:
  "discount (calculateTotal svcs fd) =
     (if applicable_rules svcs fd = [] then 0
      else Max (set (map rule_value (applicable_rules svcs fd))))
   \<and> (list_all (\<lambda>s. selected s) svcs \<longrightarrow> discount (calculateTotal svcs fd) = 15 / 100)"
  unfolding discount_fold rules_fold applicable_rules_cases
  by (simp add: discountRules_def bulk_condition_def)

theorem calculateTotal_discount_is_max_witness:
  "list_all (\<lambda>s. selected s) all_selected
   \<and> discount (calculateTotal all_selected sample_form) = 15 / 100
   \<and> map rule_type (applicable_rules all_selected sample_form) = [bulk, promo, first_time]"
proof -
  have every: "list_all (\<lambda>s. selected s) all_selected"
    by (simp add: all_selected_def toggleService_def initial_services_def)
  have three: "map rule_type (applicable_rules all_selected sample_form)
                 = [bulk, promo, first_time]"
    by (simp add: applicable_rules_def discountRules_def applies_def bulk_condition_def
        promo_condition_def first_time_condition_def all_selected_def toggleService_def
        initial_services_def sample_form_def toUpperCase_def upper_char_def)
  from every three calculateTotal_discount_is_max [of all_selected sample_form]
  show ?thesis by simp
qed

text \<open>
  Claim C4. For every form whose promotional code equals \<open>digital2024\<close> up to letter
  case, and every selection with at least two but not all services selected, the
  discount of the calculation is 0.10.
\<close>

theorem calculateTotal_promo_discount:
  assumes "equal_ignoring_case (promoCode fd) ''digital2024''"
    and "2 \<le> length (filter (\<lambda>s. selected s) svcs)"
    and "\<not> list_all (\<lambda>s. selected s) svcs"
  shows "discount (calculateTotal svcs fd) = 10 / 100"
  using assms(2,3) promo_of_equal_ignoring_case [OF assms(1), of svcs]
  unfolding discount_fold rules_fold
  by (simp add: bulk_condition_def first_time_condition_def)

theorem calculateTotal_promo_discount_witness:
  "equal_ignoring_case (promoCode sample_form) ''digital2024''
   \<and> 2 \<le> length (filter (\<lambda>s. selected s) two_selected)
   \<and> \<not> list_all (\<lambda>s. selected s) two_selected
   \<and> discount (calculateTotal two_selected sample_form) = 10 / 100"
proof -
  have code: "equal_ignoring_case (promoCode sample_form) ''digital2024''"
    by (simp add: sample_form_def equal_ignoring_case_def toLowerCase_def lower_char_def)
  have two: "2 \<le> length (filter (\<lambda>s. selected s) two_selected)"
    by (simp add: two_selected_def toggleService_def initial_services_def)
  have some: "\<not> list_all (\<lambda>s. selected s) two_selected"
    by (simp add: two_selected_def toggleService_def initial_services_def)
  from code two some calculateTotal_promo_discount [OF code two some]
  show ?thesis by simp
qed



text \<open>
  Claim C6. In the step \<open>selection\<close>, \<open>handleNextStep\<close> with no service selected
  raises the warning toast and leaves the whole state as it was (the step stays, and
  no field error is recorded); with at least one service selected it moves the step
  to \<open>contact\<close> and shows the contact form, without a toast.
\<close>

theorem handleNextStep_from_selection:
  assumes "currentStep s = selection"
  shows "(length (filter (\<lambda>x. selected x) (services s)) = 0 \<longrightarrow>
            handleNextStep validateForm s = ([(select_service_message, warning)], s))
       \<and> (1 \<le> length (filter (\<lambda>x. selected x) (services s)) \<longrightarrow>
            handleNextStep validateForm s
              = ([], s\<lparr>currentStep := contact, showContactForm := True\<rparr>))"
  using assms
  by (simp add: handleNextStep_def calculateTotal_def Let_def split: prod.split)

theorem handleNextStep_from_selection_witness:
  "currentStep initial_state = selection
   \<and> length (filter (\<lambda>x. selected x) (services initial_state)) = 0
   \<and> handleNextStep sample_validateForm initial_state
       = ([(select_service_message, warning)], initial_state)
   \<and> currentStep (initial_state\<lparr>services := two_selected\<rparr>) = selection
   \<and> 1 \<le> length (filter (\<lambda>x. selected x) (services (initial_state\<lparr>services := two_selected\<rparr>)))
   \<and> currentStep (snd (handleNextStep sample_validateForm
         (initial_state\<lparr>services := two_selected\<rparr>))) = contact"
proof -
  have step: "currentStep initial_state = selection"
    by (simp add: initial_state_def)
  have none: "length (filter (\<lambda>x. selected x) (services initial_state)) = 0"
    by (simp add: initial_state_def initial_services_def)
  have step': "currentStep (initial_state\<lparr>services := two_selected\<rparr>) = selection"
    by (simp add: initial_state_def)
  have some:
    "1 \<le> length (filter (\<lambda>x. selected x) (services (initial_state\<lparr>services := two_selected\<rparr>)))"
    by (simp add: two_selected_def toggleService_def initial_services_def)
  from step none step' some
    handleNextStep_from_selection [OF step, of sample_validateForm]
    handleNextStep_from_selection [OF step', of sample_validateForm]
  show ?thesis by simp
qed

text \<open>
  Claim C7. The back button maps the step \<open>payment\<close> to \<open>contact\<close> and \<open>contact\<close>
  to \<open>selection\<close>; in the step \<open>selection\<close> the button is not rendered, and in the
  other two steps it is.
\<close>

theorem back_navigation:
  "goBack payment = contact \<and> goBack contact = selection
   \<and> backButtonShown selection = False
   \<and> backButtonShown contact \<and> backButtonShown payment"
  by (simp add: goBack_def backButtonShown_def)

text \<open>
  Claim C8. For every selection and form, the list \<open>appliedDiscounts\<close> of the
  calculation holds the descriptions of exactly the rules that apply, in the order in
  which the rules are declared, also of a rule whose value is not the largest.
\<close>

theorem calculateTotal_appliedDiscounts:
  "appliedDiscounts (calculateTotal svcs fd) =
     map rule_description (applicable_rules svcs fd)"
  unfolding appliedDiscounts_fold rules_fold applicable_rules_cases
  by (simp add: discountRules_def)

text \<open>
  Claim C9. For every service list and every id, \<open>toggleService\<close> keeps the length of
  the list and every service whose id differs; a service whose id matches has its
  \<open>selected\<close> flag negated and its id, name, description, price and category kept. If
  no service has the id, the list is unchanged.
\<close>

theorem toggleService_frame:
  "length (toggleService i svcs) = length svcs
   \<and> (\<forall>k < length svcs.
        (svc_id (svcs ! k) \<noteq> i \<longrightarrow> toggleService i svcs ! k = svcs ! k)
      \<and> (svc_id (svcs ! k) = i \<longrightarrow>
           selected (toggleService i svcs ! k) = (\<not> selected (svcs ! k))
         \<and> svc_id (toggleService i svcs ! k) = svc_id (svcs ! k)
         \<and> svc_name (toggleService i svcs ! k) = svc_name (svcs ! k)
         \<and> description (toggleService i svcs ! k) = description (svcs ! k)
         \<and> price (toggleService i svcs ! k) = price (svcs ! k)
         \<and> category (toggleService i svcs ! k) = category (svcs ! k)))
   \<and> (i \<notin> set (map svc_id svcs) \<longrightarrow> toggleService i svcs = svcs)"
proof -
  have same: "toggleService i svcs = svcs" if "i \<notin> set (map svc_id svcs)"
    unfolding toggleService_def using that by (intro map_idI) auto
  then show ?thesis
    by (simp add: toggleService_def)
qed

theorem toggleService_frame_witness:
  "length (toggleService ''2'' initial_services) = 4
   \<and> svc_id (initial_services ! 0) \<noteq> ''2''
   \<and> toggleService ''2'' initial_services ! 0 = initial_services ! 0
   \<and> svc_id (initial_services ! 1) = ''2''
   \<and> selected (toggleService ''2'' initial_services ! 1)
   \<and> price (toggleService ''2'' initial_services ! 1) = 300
   \<and> category (toggleService ''2'' initial_services ! 1) = essential
   \<and> ''9'' \<notin> set (map svc_id initial_services)
   \<and> toggleService ''9'' initial_services = initial_services"
proof -
  have len: "length initial_services = 4"
    by (simp add: initial_services_def)
  have first: "svc_id (initial_services ! 0) \<noteq> ''2''"
    and second: "svc_id (initial_services ! 1) = ''2''"
    and flag: "\<not> selected (initial_services ! 1)"
    and cost: "price (initial_services ! 1) = 300"
    and kind: "category (initial_services ! 1) = essential"
    and absent: "''9'' \<notin> set (map svc_id initial_services)"
    by (simp_all add: initial_services_def)
  note two = toggleService_frame [of "''2''" initial_services]
  note nine = toggleService_frame [of "''9''" initial_services]
  from two len have at0: "toggleService ''2'' initial_services ! 0 = initial_services ! 0"
    using first by simp
  from two len second have at1:
    "selected (toggleService ''2'' initial_services ! 1) = (\<not> selected (initial_services ! 1))
     \<and> price (toggleService ''2'' initial_services ! 1) = price (initial_services ! 1)
     \<and> category (toggleService ''2'' initial_services ! 1) = category (initial_services ! 1)"
    by simp
  from nine absent have unchanged: "toggleService ''9'' initial_services = initial_services"
    by blast
  from two len first second flag cost kind absent at0 at1 unchanged
  show ?thesis by simp
qed

text \<open>
  Claim C10. The discount is monotone in the selection: for every service list and
  form, setting the \<open>selected\<close> flag of one service from false to true does not
  decrease the discount of the calculation.
\<close>

theorem calculateTotal_discount_monotone:
  assumes "i < length svcs" and "\<not> selected (svcs ! i)"
  shows "discount (calculateTotal svcs fd)
           \<le> discount (calculateTotal (svcs[i := (svcs ! i)\<lparr>selected := True\<rparr>]) fd)"
proof -
  let ?svcs' = "svcs[i := (svcs ! i)\<lparr>selected := True\<rparr>]"
  have not_all: "\<not> bulk_condition svcs (Some fd)"
    using assms by (auto simp: bulk_condition_def list_all_length)
  have code: "promo_condition ?svcs' (Some fd) = promo_condition svcs (Some fd)"
    by (simp add: promo_condition_def)
  have "length (filter (\<lambda>s. selected s) ?svcs') = Suc (length (filter (\<lambda>s. selected s) svcs))"
    using assms by (intro filter_update_length) simp_all
  then have several:
    "first_time_condition svcs (Some fd) \<Longrightarrow> first_time_condition ?svcs' (Some fd)"
    by (simp add: first_time_condition_def)
  show ?thesis
    unfolding discount_fold rules_fold using not_all code several
    by (simp add: max_def)
qed

theorem calculateTotal_discount_monotone_witness:
  "2 < length two_selected \<and> \<not> selected (two_selected ! 1)
   \<and> discount (calculateTotal two_selected sample_form)
       \<le> discount (calculateTotal
            (two_selected[1 := (two_selected ! 1)\<lparr>selected := True\<rparr>]) sample_form)"
proof -
  have len: "2 < length two_selected" and flag: "\<not> selected (two_selected ! 1)"
    by (simp_all add: two_selected_def toggleService_def initial_services_def)
  from len have pos: "1 < length two_selected"
    by simp
  from len flag calculateTotal_discount_monotone [OF pos flag, of sample_form]
  show ?thesis by simp
qed

end
